theory Spec2Isabelle
  imports Complex_Main
begin

section \<open>Python floats\<close>

text \<open>
  The estimators of \<^verbatim>\<open>equicast_awsutils.cost\<close> compute with Python floats. A float is
  modelled as a real number extended with the three special values the code can produce
  or receive: the pricing table holds \<^verbatim>\<open>float('inf')\<close> as the limit of its last tier.
  Rounding to 53 bits and overflow are not modelled: every finite operation is exact.
\<close>

datatype pyfloat = Fin real | PInf | NInf | NaN

fun py_neg :: "pyfloat \<Rightarrow> pyfloat" where
  "py_neg (Fin a) = Fin (- a)"
| "py_neg PInf = NInf"
| "py_neg NInf = PInf"
| "py_neg NaN = NaN"

fun py_add :: "pyfloat \<Rightarrow> pyfloat \<Rightarrow> pyfloat" where
  "py_add (Fin a) (Fin b) = Fin (a + b)"
| "py_add NaN _ = NaN"
| "py_add _ NaN = NaN"
| "py_add PInf NInf = NaN"
| "py_add NInf PInf = NaN"
| "py_add PInf _ = PInf"
| "py_add NInf _ = NInf"
| "py_add (Fin a) PInf = PInf"
| "py_add (Fin a) NInf = NInf"

definition py_sub :: "pyfloat \<Rightarrow> pyfloat \<Rightarrow> pyfloat" where
  "py_sub a b = py_add a (py_neg b)"

text \<open>The sign of a float: \<open>Some True\<close> for positive, \<open>Some False\<close> for negative,
  \<open>None\<close> for zero and for nan.\<close>

fun py_sign :: "pyfloat \<Rightarrow> bool option" where
  "py_sign (Fin a) = (if 0 < a then Some True else if a < 0 then Some False else None)"
| "py_sign PInf = Some True"
| "py_sign NInf = Some False"
| "py_sign NaN = None"

fun py_mul :: "pyfloat \<Rightarrow> pyfloat \<Rightarrow> pyfloat" where
  "py_mul (Fin a) (Fin b) = Fin (a * b)"
| "py_mul NaN _ = NaN"
| "py_mul _ NaN = NaN"
| "py_mul a b =
     (case (py_sign a, py_sign b) of
        (Some s, Some t) \<Rightarrow> (if s = t then PInf else NInf)
      | _ \<Rightarrow> NaN)"

text \<open>Comparisons with nan are false.\<close>

fun py_lt :: "pyfloat \<Rightarrow> pyfloat \<Rightarrow> bool" where
  "py_lt (Fin a) (Fin b) = (a < b)"
| "py_lt NaN _ = False"
| "py_lt _ NaN = False"
| "py_lt _ NInf = False"
| "py_lt PInf _ = False"
| "py_lt NInf _ = True"
| "py_lt (Fin a) PInf = True"

fun py_le :: "pyfloat \<Rightarrow> pyfloat \<Rightarrow> bool" where
  "py_le (Fin a) (Fin b) = (a \<le> b)"
| "py_le NaN _ = False"
| "py_le _ NaN = False"
| "py_le NInf _ = True"
| "py_le _ PInf = True"
| "py_le _ NInf = False"
| "py_le PInf (Fin b) = False"

text \<open>Python's \<^verbatim>\<open>min(a, b)\<close> keeps the first argument unless the second is
  strictly smaller.\<close>

definition py_min :: "pyfloat \<Rightarrow> pyfloat \<Rightarrow> pyfloat" where
  "py_min a b = (if py_lt b a then b else a)"

section \<open>Object transfer: \<^verbatim>\<open>S3.download_files\<close>\<close>

text \<open>
  \<^verbatim>\<open>equicast_awsutils/s3.py\<close>. The world outside the call (the local file system and the
  bucket) is a state \<open>'s\<close> with the two operations \<^verbatim>\<open>_download_file\<close> performs on it.
  \<^verbatim>\<open>os.makedirs(path, exist_ok=True)\<close> returns or raises; \<^verbatim>\<open>client.download_file\<close>
  returns, raises \<^verbatim>\<open>ClientError\<close>, or raises something else (a botocore error that is not
  a \<^verbatim>\<open>ClientError\<close>, an \<^verbatim>\<open>OSError\<close> of the local write). An exception other than
  \<^verbatim>\<open>ClientError\<close> is kept by the name of its class.
\<close>

datatype exn = Exn string

datatype fetch = Fetched | ClientError | Raises exn

record 's transfer =
  makedirs :: "'s \<Rightarrow> string \<Rightarrow> exn option \<times> 's"
  client_download_file :: "'s \<Rightarrow> string \<Rightarrow> string \<Rightarrow> fetch \<times> 's"

text \<open>\<^verbatim>\<open>os.path.join\<close> of two strings and \<^verbatim>\<open>os.path.dirname\<close>, as \<^verbatim>\<open>posixpath\<close>
  defines them.\<close>

definition path_join :: "string \<Rightarrow> string \<Rightarrow> string" where
  "path_join a b =
     (if take 1 b = ''/'' then b
      else if a = [] \<or> last a = CHR ''/'' then a @ b
      else a @ ''/'' @ b)"

definition path_dirname :: "string \<Rightarrow> string" where
  "path_dirname p =
     (let head = rev (dropWhile (\<lambda>c. c \<noteq> CHR ''/'') (rev p))
      in if head \<noteq> [] \<and> filter (\<lambda>c. c \<noteq> CHR ''/'') head \<noteq> []
         then rev (dropWhile (\<lambda>c. c = CHR ''/'') (rev head))
         else head)"

text \<open>An entry of \<^verbatim>\<open>files\<close> is a dict, read with \<^verbatim>\<open>file_info.get("key")\<close> and
  \<^verbatim>\<open>file_info.get("mandatory", False)\<close>: either may be absent.\<close>

record file_info =
  key :: "string option"
  mandatory :: "bool option"

record download_result =
  downloaded :: "string list"
  missing_mandatory :: "string list"

text \<open>What a call raises. \<open>MandatoryFilesMissing\<close> is the \<^verbatim>\<open>FileNotFoundError\<close> at the end
  of \<^verbatim>\<open>download_files\<close>, with the list its message prints; \<open>Propagated\<close> is an exception
  of the world that no handler catches.\<close>

datatype error =
    ValueError string
  | FileNotFoundError string
  | MandatoryFilesMissing "string list"
  | AttributeError
  | KeyError string
  | TypeError
  | Propagated exn

text \<open>\<^verbatim>\<open>_download_file\<close>: only \<^verbatim>\<open>ClientError\<close> is caught and turned into \<^verbatim>\<open>False\<close>.\<close>

definition download_file ::
  "'s transfer \<Rightarrow> 's \<Rightarrow> string \<Rightarrow> string \<Rightarrow> (exn + bool) \<times> 's" where
  "download_file env s s3_key local_path =
     (case makedirs env s (path_dirname local_path) of
        (Some x, s1) \<Rightarrow> (Inl x, s1)
      | (None, s1) \<Rightarrow>
          (case client_download_file env s1 s3_key local_path of
             (Fetched, s2) \<Rightarrow> (Inr True, s2)
           | (ClientError, s2) \<Rightarrow> (Inr False, s2)
           | (Raises x, s2) \<Rightarrow> (Inl x, s2)))"

definition get_mandatory :: "file_info \<Rightarrow> bool" where
  "get_mandatory fi = (case mandatory fi of None \<Rightarrow> False | Some b \<Rightarrow> b)"

text \<open>
  The loop over \<^verbatim>\<open>files\<close>. Its state is the world, the two local lists
  \<^verbatim>\<open>downloaded_files\<close> and \<^verbatim>\<open>missing_mandatory\<close>, and the calls of \<^verbatim>\<open>_download_file\<close>
  that returned, each with its key and its result. An entry without a key raises
  \<^verbatim>\<open>TypeError\<close> in \<^verbatim>\<open>os.path.join\<close>; an exception that \<^verbatim>\<open>_download_file\<close> does not catch
  ends the loop.
\<close>

fun download_loop ::
  "'s transfer \<Rightarrow> string \<Rightarrow> file_info list
     \<Rightarrow> 's \<times> string list \<times> string list \<times> (string \<times> bool) list
     \<Rightarrow> error option \<times> 's \<times> string list \<times> string list \<times> (string \<times> bool) list" where
  "download_loop env local_dir [] st = (None, st)"
| "download_loop env local_dir (fi # rest) (s, downloaded_files, missing, calls) =
     (case key fi of
        None \<Rightarrow> (Some TypeError, s, downloaded_files, missing, calls)
      | Some k \<Rightarrow>
          (case download_file env s k (path_join local_dir k) of
             (Inl x, s') \<Rightarrow> (Some (Propagated x), s', downloaded_files, missing, calls)
           | (Inr ok, s') \<Rightarrow>
               (if ok
                then download_loop env local_dir rest
                       (s', downloaded_files @ [k], missing, calls @ [(k, True)])
                else if get_mandatory fi
                then download_loop env local_dir rest
                       (s', downloaded_files, missing @ [k], calls @ [(k, False)])
                else download_loop env local_dir rest
                       (s', downloaded_files, missing, calls @ [(k, False)]))))"

text \<open>The \<^verbatim>\<open>download_all\<close> branch downloads the keys of every page of the listing, one
  page after the other. Fetching a page returns it, with or without \<^verbatim>\<open>Contents\<close>, or
  raises; no handler is around the paginator, so that exception ends the call, a
  \<^verbatim>\<open>ClientError\<close> too.\<close>

fun download_keys ::
  "'s transfer \<Rightarrow> string \<Rightarrow> string list \<Rightarrow> 's \<times> string list \<times> (string \<times> bool) list
     \<Rightarrow> error option \<times> 's \<times> string list \<times> (string \<times> bool) list" where
  "download_keys env local_dir [] st = (None, st)"
| "download_keys env local_dir (k # ks) (s, downloaded_files, calls) =
     (case download_file env s k (path_join local_dir k) of
        (Inl x, s') \<Rightarrow> (Some (Propagated x), s', downloaded_files, calls)
      | (Inr ok, s') \<Rightarrow>
          download_keys env local_dir ks
            (s', (if ok then downloaded_files @ [k] else downloaded_files), calls @ [(k, ok)]))"

fun download_pages ::
  "'s transfer \<Rightarrow> string \<Rightarrow> (exn + string list option) list
     \<Rightarrow> 's \<times> string list \<times> (string \<times> bool) list
     \<Rightarrow> error option \<times> 's \<times> string list \<times> (string \<times> bool) list" where
  "download_pages env local_dir [] st = (None, st)"
| "download_pages env local_dir (Inl x # pages) st = (Some (Propagated x), st)"
| "download_pages env local_dir (Inr page # pages) st =
     (case download_keys env local_dir (case page of None \<Rightarrow> [] | Some ks \<Rightarrow> ks) st of
        (Some e, st') \<Rightarrow> (Some e, st')
      | (None, st') \<Rightarrow> download_pages env local_dir pages st')"

text \<open>
  \<^verbatim>\<open>download_files\<close> returns the dict or raises; with it come the world as the call
  leaves it and the calls of \<^verbatim>\<open>_download_file\<close> that returned.
\<close>

definition download_files ::
  "'s transfer \<Rightarrow> 's \<Rightarrow> (exn + string list option) list \<Rightarrow> string
     \<Rightarrow> file_info list option \<Rightarrow> bool
     \<Rightarrow> (error + download_result) \<times> 's \<times> (string \<times> bool) list" where
  "download_files env s pages local_dir file_infos download_all =
     (case makedirs env s local_dir of
        (Some x, s0) \<Rightarrow> (Inl (Propagated x), s0, [])
      | (None, s0) \<Rightarrow>
          (if download_all then
             (case download_pages env local_dir pages (s0, [], []) of
                (Some e, s1, downloaded_files, calls) \<Rightarrow> (Inl e, s1, calls)
              | (None, s1, downloaded_files, calls) \<Rightarrow>
                  (Inr \<lparr>downloaded = downloaded_files, missing_mandatory = []\<rparr>, s1, calls))
           else
             (case file_infos of
                None \<Rightarrow> (Inr \<lparr>downloaded = [], missing_mandatory = []\<rparr>, s0, [])
              | Some [] \<Rightarrow> (Inr \<lparr>downloaded = [], missing_mandatory = []\<rparr>, s0, [])
              | Some fis \<Rightarrow>
                  (case download_loop env local_dir fis (s0, [], [], []) of
                     (Some e, s1, downloaded_files, missing, calls) \<Rightarrow> (Inl e, s1, calls)
                   | (None, s1, downloaded_files, missing, calls) \<Rightarrow>
                       (if missing \<noteq> [] then (Inl (MandatoryFilesMissing missing), s1, calls)
                        else (Inr \<lparr>downloaded = downloaded_files, missing_mandatory = missing\<rparr>,
                              s1, calls))))))"

section \<open>The tiered pricing loop\<close>

text \<open>
  The loop of \<^verbatim>\<open>S3._calculate_cost\<close> over the tiers of one storage type, with its
  three local variables; \<^verbatim>\<open>break\<close> returns the cost accumulated so far.
\<close>

fun tier_loop :: "(pyfloat \<times> pyfloat) list \<Rightarrow> pyfloat \<Rightarrow> pyfloat \<Rightarrow> pyfloat \<Rightarrow> pyfloat" where
  "tier_loop [] remaining_gb total_cost previous_limit = total_cost"
| "tier_loop ((tier_limit, price_per_gb) # tiers) remaining_gb total_cost previous_limit =
     (let tier_gb = py_min remaining_gb (py_sub tier_limit previous_limit);
          total_cost' = py_add total_cost (py_mul tier_gb price_per_gb);
          remaining_gb' = py_sub remaining_gb tier_gb
      in if py_le remaining_gb' (Fin 0) then total_cost'
         else tier_loop tiers remaining_gb' total_cost' tier_limit)"

text \<open>The class attribute \<^verbatim>\<open>S3._pricing\<close>.\<close>

definition pricing :: "(string \<times> (pyfloat \<times> pyfloat) list) list" where
  "pricing =
     [(''STANDARD'',
       [(Fin (50 * 1024), Fin 0.023),
        (Fin (500 * 1024), Fin 0.022),
        (PInf, Fin 0.021)])]"

text \<open>The class attribute \<^verbatim>\<open>CodeArtifact._pricing_per_gb\<close>.\<close>

definition pricing_per_gb :: pyfloat where
  "pricing_per_gb = Fin 0.05"

section \<open>The file system and the two report sinks\<close>

text \<open>
  A \<^verbatim>\<open>folder\<close> or an entry of \<^verbatim>\<open>files\<close> is a \<^verbatim>\<open>Union[str, Path]\<close>. A string is
  false when empty, a \<^verbatim>\<open>Path\<close> object is always true, and only a \<^verbatim>\<open>Path\<close> has
  \<^verbatim>\<open>is_file\<close>. A path is identified with the string it prints as.
\<close>

type_synonym path = string

datatype path_arg = Str string | PathObj path

fun truthy :: "path_arg \<Rightarrow> bool" where
  "truthy (Str s) = (s \<noteq> [])"
| "truthy (PathObj p) = True"

fun to_path :: "path_arg \<Rightarrow> path" where
  "to_path (Str s) = s"
| "to_path (PathObj p) = p"

text \<open>The file system answers the four queries the estimators make; it does not change
  during a call.\<close>

record filesystem =
  fs_exists :: "path \<Rightarrow> bool"
  fs_rglob :: "path \<Rightarrow> path list"
  fs_is_file :: "path \<Rightarrow> bool"
  fs_st_size :: "path \<Rightarrow> nat"

text \<open>What is appended to a sink: the three \<^verbatim>\<open>key=value\<close> lines of
  \<^verbatim>\<open>GITHUB_OUTPUT\<close>, or the table of \<^verbatim>\<open>GITHUB_STEP_SUMMARY\<close> with its resource label.
  The values are kept as they are, not formatted.\<close>

datatype sink_text =
    OutputLines pyfloat pyfloat "string option"
  | SummaryTable string pyfloat pyfloat "string option"

text \<open>Every access to the file system and every write, in the order the code makes
  them. Printing to standard output is not recorded.\<close>

datatype io_event =
    Exists path
  | Rglob path
  | IsFile path
  | Stat path
  | Append path sink_text

section \<open>The estimators\<close>

text \<open>
  The dataclass \<^verbatim>\<open>CodeArtifact\<close>; \<^verbatim>\<open>S3\<close> has the same fields and
  \<^verbatim>\<open>storage_type\<close>. The methods the two classes share word for word are defined once,
  on both.
\<close>

record estimator =
  region :: string
  folder :: "path_arg option"
  files :: "path_arg list option"
  threshold :: "pyfloat option"
  github_summary :: bool
  github_output :: bool
  total_gb :: pyfloat
  total_cost :: pyfloat
  color_code :: "string option"
  all_files :: "path list"

record s3_estimator = estimator +
  storage_type :: string

text \<open>The dict \<^verbatim>\<open>calculate\<close> returns.\<close>

record report =
  report_total_gb :: pyfloat
  report_total_cost :: pyfloat
  report_color_code :: "string option"

definition validate_region :: "'a estimator_scheme \<Rightarrow> error option" where
  "validate_region e =
     (if region e \<noteq> ''eu-west-1''
      then Some (ValueError ''Currently only Ireland (eu-west-1) region is supported'')
      else None)"

definition validate_storage_type :: "'a s3_estimator_scheme \<Rightarrow> error option" where
  "validate_storage_type e =
     (if storage_type e \<notin> set (map fst pricing)
      then Some (ValueError (''Storage type '' @ [CHR 0x27] @ storage_type e @ [CHR 0x27]
                              @ '' is not supported''))
      else None)"

text \<open>
  The last statement of \<^verbatim>\<open>_gather_files\<close>, \<^verbatim>\<open>[f for f in all_files if f.is_file()]\<close>:
  a string among the candidates has no \<^verbatim>\<open>is_file\<close>, and the comprehension raises
  there, after the queries it made on the entries before.
\<close>

fun keep_files :: "filesystem \<Rightarrow> path_arg list \<Rightarrow> error option \<times> path list \<times> io_event list" where
  "keep_files fs [] = (None, [], [])"
| "keep_files fs (Str s # cs) = (Some AttributeError, [], [])"
| "keep_files fs (PathObj p # cs) =
     (case keep_files fs cs of
        (err, kept, evs) \<Rightarrow>
          (err, (if fs_is_file fs p then p # kept else kept), IsFile p # evs))"

definition gather_files ::
  "filesystem \<Rightarrow> 'a estimator_scheme \<Rightarrow> error option \<times> 'a estimator_scheme \<times> io_event list" where
  "gather_files fs e =
     (let walked =
            (case folder e of
               None \<Rightarrow> (None, [], [])
             | Some f \<Rightarrow>
                 (if truthy f then
                    (if \<not> fs_exists fs (to_path f)
                     then (Some (FileNotFoundError (''Folder '' @ to_path f @ '' does not exist'')),
                           [], [Exists (to_path f)])
                     else (None, map PathObj (fs_rglob fs (to_path f)),
                           [Exists (to_path f), Rglob (to_path f)]))
                  else (None, [], [])))
      in case walked of
           (Some err, _, evs) \<Rightarrow> (Some err, e, evs)
         | (None, found, evs) \<Rightarrow>
             (let candidates =
                    (case files e of
                       None \<Rightarrow> found
                     | Some fl \<Rightarrow> (if fl \<noteq> [] then found @ fl else found))
              in case keep_files fs candidates of
                   (Some err, _, evs') \<Rightarrow> (Some err, e, evs @ evs')
                 | (None, kept, evs') \<Rightarrow> (None, e\<lparr>all_files := kept\<rparr>, evs @ evs')))"

text \<open>\<^verbatim>\<open>sum\<close> adds from the left, starting at 0. The file system does not change, so
  \<^verbatim>\<open>stat\<close> on a path that passed \<^verbatim>\<open>is_file\<close> does not raise.\<close>

definition calculate_total_gb ::
  "filesystem \<Rightarrow> 'a estimator_scheme \<Rightarrow> 'a estimator_scheme \<times> io_event list" where
  "calculate_total_gb fs e =
     (e\<lparr>total_gb :=
          foldl py_add (Fin 0) (map (\<lambda>f. Fin (real (fs_st_size fs f) / 1024 ^ 3)) (all_files e))\<rparr>,
      map Stat (all_files e))"

definition s3_calculate_cost :: "'a s3_estimator_scheme \<Rightarrow> error option \<times> 'a s3_estimator_scheme" where
  "s3_calculate_cost e =
     (case map_of pricing (storage_type e) of
        None \<Rightarrow> (Some (KeyError (storage_type e)), e)
      | Some tiers \<Rightarrow> (None, e\<lparr>total_cost := tier_loop tiers (total_gb e) (Fin 0) (Fin 0)\<rparr>))"

definition ca_calculate_cost :: "'a estimator_scheme \<Rightarrow> 'a estimator_scheme" where
  "ca_calculate_cost e = e\<lparr>total_cost := py_mul (total_gb e) pricing_per_gb\<rparr>"

text \<open>\<^verbatim>\<open>_determine_color_code\<close>, the threshold classifier: \<^verbatim>\<open>color_code\<close> is
  \<^verbatim>\<open>None\<close> or one of three strings.\<close>

definition determine_color_code :: "'a estimator_scheme \<Rightarrow> 'a estimator_scheme" where
  "determine_color_code e =
     (case threshold e of
        None \<Rightarrow> e\<lparr>color_code := None\<rparr>
      | Some t \<Rightarrow>
          (let color =
                 (if py_lt (total_cost e) (py_mul t (Fin 0.5)) then ''green''
                  else if py_lt (total_cost e) t then ''yellow''
                  else ''red'')
           in e\<lparr>color_code := Some color\<rparr>))"

text \<open>The sinks: the environment maps a variable to its value, if set; an empty value is
  false and the write is skipped. Opening the file for appending is taken to succeed.\<close>

definition write_github_output :: "(string \<Rightarrow> string option) \<Rightarrow> 'a estimator_scheme \<Rightarrow> io_event list" where
  "write_github_output env e =
     (if github_output e then
        (case env ''GITHUB_OUTPUT'' of
           None \<Rightarrow> []
         | Some gh_output \<Rightarrow>
             (if gh_output \<noteq> []
              then [Append gh_output (OutputLines (total_gb e) (total_cost e) (color_code e))]
              else []))
      else [])"

definition write_github_summary ::
  "string \<Rightarrow> (string \<Rightarrow> string option) \<Rightarrow> 'a estimator_scheme \<Rightarrow> io_event list" where
  "write_github_summary label env e =
     (if github_summary e then
        (case env ''GITHUB_STEP_SUMMARY'' of
           None \<Rightarrow> []
         | Some summary_path \<Rightarrow>
             (if summary_path \<noteq> []
              then [Append summary_path
                      (SummaryTable label (total_gb e) (total_cost e) (color_code e))]
              else []))
      else [])"

definition report_of :: "'a estimator_scheme \<Rightarrow> report" where
  "report_of e =
     \<lparr>report_total_gb = total_gb e, report_total_cost = total_cost e,
      report_color_code = color_code e\<rparr>"

text \<open>
  \<^verbatim>\<open>calculate\<close>: the result is what the call returns or raises, the object as the call
  leaves it, and the events of the call. A step that raises ends the call.
\<close>

definition s3_calculate ::
  "filesystem \<Rightarrow> (string \<Rightarrow> string option) \<Rightarrow> 'a s3_estimator_scheme
     \<Rightarrow> (error + report) \<times> 'a s3_estimator_scheme \<times> io_event list" where
  "s3_calculate fs env e =
     (case validate_region e of
        Some err \<Rightarrow> (Inl err, e, [])
      | None \<Rightarrow>
     (case validate_storage_type e of
        Some err \<Rightarrow> (Inl err, e, [])
      | None \<Rightarrow>
     (case gather_files fs e of
        (Some err, e1, evs1) \<Rightarrow> (Inl err, e1, evs1)
      | (None, e1, evs1) \<Rightarrow>
     (case calculate_total_gb fs e1 of
        (e2, evs2) \<Rightarrow>
     (case s3_calculate_cost e2 of
        (Some err, e3) \<Rightarrow> (Inl err, e3, evs1 @ evs2)
      | (None, e3) \<Rightarrow>
     (let e4 = determine_color_code e3
      in (Inr (report_of e4), e4,
          evs1 @ evs2 @ write_github_output env e4
            @ write_github_summary ''S3'' env e4)))))))"

definition ca_calculate ::
  "filesystem \<Rightarrow> (string \<Rightarrow> string option) \<Rightarrow> 'a estimator_scheme
     \<Rightarrow> (error + report) \<times> 'a estimator_scheme \<times> io_event list" where
  "ca_calculate fs env e =
     (case validate_region e of
        Some err \<Rightarrow> (Inl err, e, [])
      | None \<Rightarrow>
     (case gather_files fs e of
        (Some err, e1, evs1) \<Rightarrow> (Inl err, e1, evs1)
      | (None, e1, evs1) \<Rightarrow>
     (case calculate_total_gb fs e1 of
        (e2, evs2) \<Rightarrow>
     (let e3 = ca_calculate_cost e2;
          e4 = determine_color_code e3
      in (Inr (report_of e4), e4,
          evs1 @ evs2 @ write_github_output env e4
            @ write_github_summary ''CodeArtifact'' env e4)))))"

text \<open>The objects the dataclass constructors build: the three result fields start at
  \<^verbatim>\<open>0.0\<close>, \<^verbatim>\<open>0.0\<close> and \<^verbatim>\<open>None\<close>, and \<^verbatim>\<open>all_files\<close> is empty.\<close>

definition new_code_artifact ::
  "string \<Rightarrow> path_arg option \<Rightarrow> path_arg list option \<Rightarrow> pyfloat option \<Rightarrow> bool \<Rightarrow> bool
     \<Rightarrow> estimator" where
  "new_code_artifact r fo fl th gs go =
     \<lparr>region = r, folder = fo, files = fl, threshold = th, github_summary = gs,
      github_output = go, total_gb = Fin 0, total_cost = Fin 0, color_code = None,
      all_files = []\<rparr>"

definition new_s3 ::
  "string \<Rightarrow> string \<Rightarrow> path_arg option \<Rightarrow> path_arg list option \<Rightarrow> pyfloat option \<Rightarrow> bool
     \<Rightarrow> bool \<Rightarrow> s3_estimator" where
  "new_s3 r st fo fl th gs go =
     \<lparr>region = r, folder = fo, files = fl, threshold = th, github_summary = gs,
      github_output = go, total_gb = Fin 0, total_cost = Fin 0, color_code = None,
      all_files = [], storage_type = st\<rparr>"

section \<open>A closed form for the proofs\<close>

text \<open>
  Not part of the program: the piecewise linear function that the loop of
  \<^verbatim>\<open>S3._calculate_cost\<close> computes on the \<^verbatim>\<open>STANDARD\<close> tiers (lemma
  \<open>s3_cost_standard\<close> below proves that it does).
\<close>

definition standard_formula :: "real \<Rightarrow> real" where
  "standard_formula c =
     (if c \<le> 51200 then c * 0.023
      else if c \<le> 512000 then 51200 * 0.023 + (c - 51200) * 0.022
      else 51200 * 0.023 + 460800 * 0.022 + (c - 512000) * 0.021)"

section \<open>The repository's tests, on the model\<close>

text \<open>
  The cases of \<^verbatim>\<open>tests/cost/test_s3.py\<close>, \<^verbatim>\<open>tests/cost/test_code_artifact.py\<close> and
  \<^verbatim>\<open>tests/test_s3.py\<close> that fix a value, run on the definitions above: the temporary
  folder holds three files of 1 MB, a mocked file is a \<^verbatim>\<open>Path\<close> of the given size.
\<close>

lemma test_invalid_region:
  "fst (s3_calculate
     \<lparr>fs_exists = (\<lambda>p. True),
      fs_rglob = (\<lambda>p. [''tmp/file_0.txt'', ''tmp/file_1.txt'', ''tmp/file_2.txt'']),
      fs_is_file = (\<lambda>p. True), fs_st_size = (\<lambda>p. 1024 ^ 2)\<rparr>
     (\<lambda>v. None)
     (new_s3 ''us-east-1'' ''STANDARD'' (Some (PathObj ''tmp'')) None None False False))
   = Inl (ValueError ''Currently only Ireland (eu-west-1) region is supported'')"
  by (simp add: s3_calculate_def validate_region_def new_s3_def)

lemma test_invalid_storage_type:
  "fst (s3_calculate
     \<lparr>fs_exists = (\<lambda>p. True),
      fs_rglob = (\<lambda>p. [''tmp/file_0.txt'', ''tmp/file_1.txt'', ''tmp/file_2.txt'']),
      fs_is_file = (\<lambda>p. True), fs_st_size = (\<lambda>p. 1024 ^ 2)\<rparr>
     (\<lambda>v. None)
     (new_s3 ''eu-west-1'' ''GLACIER'' (Some (PathObj ''tmp'')) None None False False))
   = Inl (ValueError ''Storage type 'GLACIER' is not supported'')"
  by (simp add: s3_calculate_def validate_region_def validate_storage_type_def pricing_def
      new_s3_def)

lemma test_total_gb_calculation:
  "report_total_gb (projr (fst (s3_calculate
     \<lparr>fs_exists = (\<lambda>p. True),
      fs_rglob = (\<lambda>p. [''tmp/file_0.txt'', ''tmp/file_1.txt'', ''tmp/file_2.txt'']),
      fs_is_file = (\<lambda>p. True), fs_st_size = (\<lambda>p. 1024 ^ 2)\<rparr>
     (\<lambda>v. None)
     (new_s3 ''eu-west-1'' ''STANDARD'' (Some (PathObj ''tmp'')) None None False False))))
   = Fin (3 / 1024)"
  by (simp add: s3_calculate_def validate_region_def validate_storage_type_def pricing_def
      gather_files_def calculate_total_gb_def s3_calculate_cost_def py_min_def py_sub_def
      determine_color_code_def report_of_def new_s3_def Let_def)

lemma test_files_list:
  "report_total_gb (projr (fst (ca_calculate
     \<lparr>fs_exists = (\<lambda>p. True), fs_rglob = (\<lambda>p. []),
      fs_is_file = (\<lambda>p. True), fs_st_size = (\<lambda>p. 1024 ^ 2)\<rparr>
     (\<lambda>v. None)
     (new_code_artifact ''eu-west-1'' None
        (Some [PathObj ''tmp/file_0.txt'', PathObj ''tmp/file_1.txt'', PathObj ''tmp/file_2.txt''])
        None False False))))
   = Fin (3 / 1024)"
  by (simp add: ca_calculate_def validate_region_def gather_files_def calculate_total_gb_def
      ca_calculate_cost_def pricing_per_gb_def determine_color_code_def report_of_def
      new_code_artifact_def Let_def)

lemma test_first_50_tb_tier:
  "fst (s3_calculate
     \<lparr>fs_exists = (\<lambda>p. False), fs_rglob = (\<lambda>p. []),
      fs_is_file = (\<lambda>p. True), fs_st_size = (\<lambda>p. 50 * 1024 * 1024 ^ 3)\<rparr>
     (\<lambda>v. None)
     (new_s3 ''eu-west-1'' ''STANDARD'' None (Some [PathObj ''file_50tb'']) None False False))
   = Inr \<lparr>report_total_gb = Fin (50 * 1024),
          report_total_cost = Fin (50 * 1024 * 0.023),
          report_color_code = None\<rparr>"
  by (simp add: s3_calculate_def validate_region_def validate_storage_type_def pricing_def
      gather_files_def calculate_total_gb_def s3_calculate_cost_def py_min_def py_sub_def
      determine_color_code_def report_of_def new_s3_def Let_def)

lemma test_next_450_tb_tier:
  "fst (s3_calculate
     \<lparr>fs_exists = (\<lambda>p. False), fs_rglob = (\<lambda>p. []),
      fs_is_file = (\<lambda>p. True), fs_st_size = (\<lambda>p. 100 * 1024 * 1024 ^ 3)\<rparr>
     (\<lambda>v. None)
     (new_s3 ''eu-west-1'' ''STANDARD'' None (Some [PathObj ''file_100tb'']) None False False))
   = Inr \<lparr>report_total_gb = Fin (100 * 1024),
          report_total_cost = Fin (50 * 1024 * 0.023 + 50 * 1024 * 0.022),
          report_color_code = None\<rparr>"
  by (simp add: s3_calculate_def validate_region_def validate_storage_type_def pricing_def
      gather_files_def calculate_total_gb_def s3_calculate_cost_def py_min_def py_sub_def
      determine_color_code_def report_of_def new_s3_def Let_def)

lemma test_over_500_tb_tier:
  "fst (s3_calculate
     \<lparr>fs_exists = (\<lambda>p. False), fs_rglob = (\<lambda>p. []),
      fs_is_file = (\<lambda>p. True), fs_st_size = (\<lambda>p. 600 * 1024 * 1024 ^ 3)\<rparr>
     (\<lambda>v. None)
     (new_s3 ''eu-west-1'' ''STANDARD'' None (Some [PathObj ''file_600tb'']) None False False))
   = Inr \<lparr>report_total_gb = Fin (600 * 1024),
          report_total_cost = Fin (50 * 1024 * 0.023 + 450 * 1024 * 0.022 + 100 * 1024 * 0.021),
          report_color_code = None\<rparr>"
  by (simp add: s3_calculate_def validate_region_def validate_storage_type_def pricing_def
      gather_files_def calculate_total_gb_def s3_calculate_cost_def py_min_def py_sub_def
      determine_color_code_def report_of_def new_s3_def Let_def)

lemma test_github_output:
  "snd (snd (ca_calculate
     \<lparr>fs_exists = (\<lambda>p. True), fs_rglob = (\<lambda>p. [''tmp/file_0.txt'']),
      fs_is_file = (\<lambda>p. True), fs_st_size = (\<lambda>p. 1024 ^ 3)\<rparr>
     (\<lambda>v. if v = ''GITHUB_OUTPUT'' then Some ''github_output.txt''
           else if v = ''GITHUB_STEP_SUMMARY'' then Some ''github_summary.md'' else None)
     (new_code_artifact ''eu-west-1'' (Some (PathObj ''tmp'')) None (Some (Fin 0.1)) True True)))
   = [Exists ''tmp'', Rglob ''tmp'', IsFile ''tmp/file_0.txt'', Stat ''tmp/file_0.txt'',
      Append ''github_output.txt'' (OutputLines (Fin 1) (Fin 0.05) (Some ''yellow'')),
      Append ''github_summary.md''
        (SummaryTable ''CodeArtifact'' (Fin 1) (Fin 0.05) (Some ''yellow''))]"
  by (simp add: ca_calculate_def validate_region_def gather_files_def calculate_total_gb_def
      ca_calculate_cost_def pricing_per_gb_def determine_color_code_def report_of_def
      write_github_output_def write_github_summary_def new_code_artifact_def Let_def)

lemma path_examples:
  "path_join ''d'' ''a/b'' = ''d/a/b'' \<and> path_join ''d/'' ''a'' = ''d/a'' \<and>
   path_join ''d'' ''/x'' = ''/x'' \<and> path_join [] ''a'' = ''a'' \<and>
   path_dirname ''d/a/b'' = ''d/a'' \<and> path_dirname ''d/a'' = ''d'' \<and>
   path_dirname ''a'' = [] \<and> path_dirname ''/a'' = ''/'' \<and> path_dirname ''a//b'' = ''a''"
  by (simp add: path_join_def path_dirname_def)

lemma test_download_all_non_mandatory_with_missing:
  "fst (download_files
     \<lparr>makedirs = (\<lambda>s p. (None, s)),
      client_download_file =
        (\<lambda>s k p. (if k = ''file1.txt'' \<or> k = ''file2.txt'' then Fetched else ClientError, p # s))\<rparr>
     [] [Inr (Some [''file1.txt'', ''file2.txt''])] ''tmpdir''
     (Some [\<lparr>key = Some ''file-does-not-exist.txt'', mandatory = Some False\<rparr>,
            \<lparr>key = Some ''file1.txt'', mandatory = Some False\<rparr>]) False)
   = Inr \<lparr>downloaded = [''file1.txt''], missing_mandatory = []\<rparr>"
  by (simp add: download_files_def download_file_def get_mandatory_def)

lemma test_download_mixed_mandatory_and_optional_with_missing:
  "fst (download_files
     \<lparr>makedirs = (\<lambda>s p. (None, s)),
      client_download_file =
        (\<lambda>s k p. (if k = ''file1.txt'' \<or> k = ''file2.txt'' then Fetched else ClientError, p # s))\<rparr>
     [] [Inr (Some [''file1.txt'', ''file2.txt''])] ''tmpdir''
     (Some [\<lparr>key = Some ''file1.txt'', mandatory = Some True\<rparr>,
            \<lparr>key = Some ''file-does-not-exist.txt'', mandatory = Some True\<rparr>,
            \<lparr>key = Some ''file2.txt'', mandatory = Some False\<rparr>]) False)
   = Inl (MandatoryFilesMissing [''file-does-not-exist.txt''])"
  by (simp add: download_files_def download_file_def get_mandatory_def)

lemma test_download_all_files:
  "download_files
     \<lparr>makedirs = (\<lambda>s p. (None, s)),
      client_download_file =
        (\<lambda>s k p. (if k = ''file1.txt'' \<or> k = ''file2.txt'' then Fetched else ClientError, p # s))\<rparr>
     [] [Inr (Some [''file1.txt'', ''file2.txt''])] ''tmpdir'' None True
   = (Inr \<lparr>downloaded = [''file1.txt'', ''file2.txt''], missing_mandatory = []\<rparr>,
      [''tmpdir/file2.txt'', ''tmpdir/file1.txt''],
      [(''file1.txt'', True), (''file2.txt'', True)])"
  by (simp add: download_files_def download_file_def path_join_def)

section \<open>The pricing models\<close>

lemma s3_cost_standard:
  "s3_calculate_cost (e\<lparr>storage_type := ''STANDARD'', total_gb := Fin c\<rparr>) =
     (None, e\<lparr>storage_type := ''STANDARD'', total_gb := Fin c,
        total_cost := Fin (standard_formula c)\<rparr>)"
  by (simp add: s3_calculate_cost_def pricing_def py_min_def py_sub_def Let_def
      standard_formula_def)

lemma standard_formula_min_max:
  "standard_formula =
     (\<lambda>c. 0.023 * min c 51200 + 0.022 * min (max (c - 51200) 0) 460800
            + 0.021 * max (c - 512000) 0)"
  by (rule ext) (simp add: standard_formula_def min_def max_def)

lemma standard_formula_continuous: "continuous_on UNIV standard_formula"
  unfolding standard_formula_min_max by (intro continuous_intros)

lemma standard_formula_mono: "c1 \<le> c2 \<Longrightarrow> standard_formula c1 \<le> standard_formula c2"
  unfolding standard_formula_def
  by (cases "c1 \<le> 51200"; cases "c1 \<le> 512000"; cases "c2 \<le> 51200"; cases "c2 \<le> 512000";
      simp add: diff_divide_distrib)

lemma standard_formula_slopes:
  "(c \<le> c' \<and> c' \<le> 51200 \<longrightarrow> standard_formula c' - standard_formula c = 0.023 * (c' - c)) \<and>
   (51200 \<le> c \<and> c \<le> c' \<and> c' \<le> 512000 \<longrightarrow> standard_formula c' - standard_formula c = 0.022 * (c' - c)) \<and>
   (512000 \<le> c \<and> c \<le> c' \<longrightarrow> standard_formula c' - standard_formula c = 0.021 * (c' - c))"
  by (simp add: standard_formula_def algebra_simps)

text \<open>
  C1. The tiers of \<^verbatim>\<open>STANDARD\<close> are \<open>(50 * 1024, 0.023)\<close>, \<open>(500 * 1024, 0.022)\<close> and
  \<open>(inf, 0.021)\<close>, in this order, and on them \<^verbatim>\<open>_calculate_cost\<close> is the graduated algorithm:
  from a remaining capacity \<open>c\<close>, a previous boundary 0 and a cost 0, each tier bills
  the span \<open>min remaining (boundary - previous)\<close> at its rate, and the loop stops once
  nothing remains. A capacity of \<open>50 * 1024\<close> GB costs \<open>50 * 1024 * 0.023\<close>, one of
  \<open>100 * 1024\<close> GB costs \<open>50 * 1024 * 0.023 + 50 * 1024 * 0.022\<close>, and one of
  \<open>600 * 1024\<close> GB costs \<open>50 * 1024 * 0.023 + 450 * 1024 * 0.022 + 100 * 1024 * 0.021\<close>.
\<close>

theorem tiered_cost_graduated:
  "map_of pricing ''STANDARD'' =
     Some [(Fin (50 * 1024), Fin 0.023), (Fin (500 * 1024), Fin 0.022), (PInf, Fin 0.021)] \<and>
   s3_calculate_cost (e\<lparr>storage_type := ''STANDARD'', total_gb := Fin c\<rparr>) =
     (None, e\<lparr>storage_type := ''STANDARD'', total_gb := Fin c,
        total_cost := Fin
         (let span1 = min c (50 * 1024 - 0); cost1 = 0 + span1 * 0.023; rem1 = c - span1
          in if rem1 \<le> 0 then cost1
             else let span2 = min rem1 (500 * 1024 - 50 * 1024); cost2 = cost1 + span2 * 0.022;
                      rem2 = rem1 - span2
                  in if rem2 \<le> 0 then cost2
                     else let span3 = rem2; cost3 = cost2 + span3 * 0.021 in cost3)\<rparr>) \<and>
   total_cost (snd (s3_calculate_cost
       (e\<lparr>storage_type := ''STANDARD'', total_gb := Fin (50 * 1024)\<rparr>)))
     = Fin (50 * 1024 * 0.023) \<and>
   total_cost (snd (s3_calculate_cost
       (e\<lparr>storage_type := ''STANDARD'', total_gb := Fin (100 * 1024)\<rparr>)))
     = Fin (50 * 1024 * 0.023 + 50 * 1024 * 0.022) \<and>
   total_cost (snd (s3_calculate_cost
       (e\<lparr>storage_type := ''STANDARD'', total_gb := Fin (600 * 1024)\<rparr>)))
     = Fin (50 * 1024 * 0.023 + 450 * 1024 * 0.022 + 100 * 1024 * 0.021)"
  by (simp add: s3_cost_standard standard_formula_def Let_def min_def) (simp add: pricing_def)

text \<open>
  C8. The flat-rate model of \<^verbatim>\<open>CodeArtifact\<close> bills every gigabyte at the one rate 0.05,
  and doubling the capacity doubles the cost, for every capacity (also an infinite one).
\<close>

theorem flat_rate_linear:
  "total_cost (ca_calculate_cost (e\<lparr>total_gb := Fin c\<rparr>)) = Fin (c * 0.05) \<and>
   total_cost (ca_calculate_cost (e\<lparr>total_gb := py_mul (Fin 2) g\<rparr>)) =
     py_mul (Fin 2) (total_cost (ca_calculate_cost (e\<lparr>total_gb := g\<rparr>)))"
  by (cases g) (simp_all add: ca_calculate_cost_def pricing_per_gb_def)

text \<open>
  C4. On the \<^verbatim>\<open>STANDARD\<close> tiers the cost does not decrease when the capacity grows
  (capacities from 0 on); it is a continuous function of the capacity; its slope is 0.023
  up to \<open>50 * 1024\<close> GB, 0.022 from there to \<open>500 * 1024\<close> GB and 0.021 beyond, and
  these rates, read off the tier list, decrease strictly.
\<close>

theorem tiered_cost_monotone_continuous:
  "(\<forall>c1 c2. 0 \<le> c1 \<and> c1 \<le> c2 \<longrightarrow>
      py_le (total_cost (snd (s3_calculate_cost (e\<lparr>storage_type := ''STANDARD'', total_gb := Fin c1\<rparr>))))
            (total_cost (snd (s3_calculate_cost (e\<lparr>storage_type := ''STANDARD'', total_gb := Fin c2\<rparr>))))) \<and>
   (\<exists>f. (\<forall>c. total_cost (snd (s3_calculate_cost (e\<lparr>storage_type := ''STANDARD'', total_gb := Fin c\<rparr>)))
              = Fin (f c)) \<and>
        continuous_on UNIV f \<and>
        (\<forall>c c'. 0 \<le> c \<and> c \<le> c' \<and> c' \<le> 50 * 1024 \<longrightarrow> f c' - f c = 0.023 * (c' - c)) \<and>
        (\<forall>c c'. 50 * 1024 \<le> c \<and> c \<le> c' \<and> c' \<le> 500 * 1024 \<longrightarrow> f c' - f c = 0.022 * (c' - c)) \<and>
        (\<forall>c c'. 500 * 1024 \<le> c \<and> c \<le> c' \<longrightarrow> f c' - f c = 0.021 * (c' - c))) \<and>
   (\<exists>tiers. map_of pricing ''STANDARD'' = Some tiers \<and>
        map snd tiers = [Fin 0.023, Fin 0.022, Fin 0.021] \<and>
        sorted_wrt (\<lambda>r r'. py_lt r' r) (map snd tiers))"
proof (intro conjI)
  show "\<forall>c1 c2. 0 \<le> c1 \<and> c1 \<le> c2 \<longrightarrow>
      py_le (total_cost (snd (s3_calculate_cost (e\<lparr>storage_type := ''STANDARD'', total_gb := Fin c1\<rparr>))))
            (total_cost (snd (s3_calculate_cost (e\<lparr>storage_type := ''STANDARD'', total_gb := Fin c2\<rparr>))))"
    by (simp add: s3_cost_standard standard_formula_mono)
  show "\<exists>f. (\<forall>c. total_cost (snd (s3_calculate_cost (e\<lparr>storage_type := ''STANDARD'', total_gb := Fin c\<rparr>)))
              = Fin (f c)) \<and>
        continuous_on UNIV f \<and>
        (\<forall>c c'. 0 \<le> c \<and> c \<le> c' \<and> c' \<le> 50 * 1024 \<longrightarrow> f c' - f c = 0.023 * (c' - c)) \<and>
        (\<forall>c c'. 50 * 1024 \<le> c \<and> c \<le> c' \<and> c' \<le> 500 * 1024 \<longrightarrow> f c' - f c = 0.022 * (c' - c)) \<and>
        (\<forall>c c'. 500 * 1024 \<le> c \<and> c \<le> c' \<longrightarrow> f c' - f c = 0.021 * (c' - c))"
    using standard_formula_slopes
    by (intro exI [of _ standard_formula]) (simp add: s3_cost_standard standard_formula_continuous)
  show "\<exists>tiers. map_of pricing ''STANDARD'' = Some tiers \<and>
        map snd tiers = [Fin 0.023, Fin 0.022, Fin 0.021] \<and>
        sorted_wrt (\<lambda>r r'. py_lt r' r) (map snd tiers)"
    by (simp add: pricing_def)
qed

theorem tiered_cost_monotone_continuous_witness:
  "(0::real) \<le> 51200 \<and> (51200::real) \<le> 102400 \<and>
   py_le (total_cost (snd (s3_calculate_cost
            ((new_s3 ''eu-west-1'' ''STANDARD'' None None None False False)
               \<lparr>storage_type := ''STANDARD'', total_gb := Fin 51200\<rparr>))))
         (total_cost (snd (s3_calculate_cost
            ((new_s3 ''eu-west-1'' ''STANDARD'' None None None False False)
               \<lparr>storage_type := ''STANDARD'', total_gb := Fin 102400\<rparr>))))"
  using tiered_cost_monotone_continuous
    [of "new_s3 ''eu-west-1'' ''STANDARD'' None None None False False"]
  by simp

section \<open>The classifier\<close>

text \<open>
  C2. Without a threshold the color code is \<^verbatim>\<open>None\<close>. For a cost \<open>c \<ge> 0\<close> and a
  threshold \<open>t > 0\<close>: \<open>c < t * 0.5\<close> is green, \<open>t * 0.5 \<le> c < t\<close> is yellow and
  \<open>t \<le> c\<close> is red; the boundary \<open>c = t * 0.5\<close> is yellow and the boundary \<open>c = t\<close>
  is red. With threshold 1.0, cost 0 is green, cost 0.5 is yellow and cost 1.0 is red.
\<close>

theorem threshold_classifier_bands:
  "color_code (determine_color_code (e\<lparr>threshold := None\<rparr>)) = None \<and>
   (0 \<le> c \<and> 0 < t \<longrightarrow>
      (c < t * 0.5 \<longrightarrow>
         color_code (determine_color_code (e\<lparr>total_cost := Fin c, threshold := Some (Fin t)\<rparr>))
           = Some ''green'') \<and>
      (t * 0.5 \<le> c \<and> c < t \<longrightarrow>
         color_code (determine_color_code (e\<lparr>total_cost := Fin c, threshold := Some (Fin t)\<rparr>))
           = Some ''yellow'') \<and>
      (t \<le> c \<longrightarrow>
         color_code (determine_color_code (e\<lparr>total_cost := Fin c, threshold := Some (Fin t)\<rparr>))
           = Some ''red'') \<and>
      color_code (determine_color_code (e\<lparr>total_cost := Fin (t * 0.5), threshold := Some (Fin t)\<rparr>))
        = Some ''yellow'' \<and>
      color_code (determine_color_code (e\<lparr>total_cost := Fin t, threshold := Some (Fin t)\<rparr>))
        = Some ''red'') \<and>
   color_code (determine_color_code (e\<lparr>total_cost := Fin 0, threshold := Some (Fin 1.0)\<rparr>))
     = Some ''green'' \<and>
   color_code (determine_color_code (e\<lparr>total_cost := Fin 0.5, threshold := Some (Fin 1.0)\<rparr>))
     = Some ''yellow'' \<and>
   color_code (determine_color_code (e\<lparr>total_cost := Fin 1.0, threshold := Some (Fin 1.0)\<rparr>))
     = Some ''red''"
  by (auto simp: determine_color_code_def)

theorem threshold_classifier_bands_witness:
  "(0::real) \<le> 3 \<and> (0::real) < 4 \<and> (4::real) * 0.5 \<le> 3 \<and> (3::real) < 4 \<and>
   color_code (determine_color_code
     ((new_code_artifact ''eu-west-1'' None None None False False)
        \<lparr>total_cost := Fin 3, threshold := Some (Fin 4)\<rparr>)) = Some ''yellow''"
  using threshold_classifier_bands
    [of "new_code_artifact ''eu-west-1'' None None None False False" 3 4]
  by simp

section \<open>Collecting and measuring the files\<close>

lemma keep_files_paths:
  "keep_files fs (map PathObj ps) = (None, filter (fs_is_file fs) ps, map IsFile ps)"
  by (induction ps) simp_all

lemma foldl_py_add_Fin:
  "foldl py_add (Fin a) (map (\<lambda>f. Fin (g f)) xs) = Fin (a + sum_list (map g xs))"
  by (induction xs arbitrary: a) (simp_all add: add.assoc)

lemma total_gb_bytes:
  "total_gb (fst (calculate_total_gb fs e)) =
     Fin (real (sum_list (map (fs_st_size fs) (all_files e))) / 2 ^ 30)"
proof -
  have "sum_list (map (\<lambda>f. real (fs_st_size fs f) / 1024 ^ 3) xs)
          = real (sum_list (map (fs_st_size fs) xs)) / 2 ^ 30" for xs
    by (induction xs) (simp_all add: add_divide_distrib)
  then show ?thesis
    by (simp add: calculate_total_gb_def foldl_py_add_Fin)
qed

lemma gather_files_walk_and_list:
  assumes "folder e = Some f" "truthy f" "fs_exists fs (to_path f)"
    and "files e = Some (map PathObj ps)"
  shows "gather_files fs e =
     (None, e\<lparr>all_files := filter (fs_is_file fs) (fs_rglob fs (to_path f) @ ps)\<rparr>,
      [Exists (to_path f), Rglob (to_path f)] @ map IsFile (fs_rglob fs (to_path f) @ ps))"
proof -
  have "keep_files fs (map PathObj (fs_rglob fs (to_path f)) @ map PathObj ps)
      = (None, filter (fs_is_file fs) (fs_rglob fs (to_path f) @ ps),
         map IsFile (fs_rglob fs (to_path f) @ ps))"
    using keep_files_paths [of fs "fs_rglob fs (to_path f) @ ps"] by simp
  moreover have "keep_files fs (map PathObj (fs_rglob fs (to_path f)))
      = (None, filter (fs_is_file fs) (fs_rglob fs (to_path f)),
         map IsFile (fs_rglob fs (to_path f)))"
    by (rule keep_files_paths)
  ultimately show ?thesis
    using assms by (cases "ps = []") (simp_all add: gather_files_def)
qed

lemma sum_list_count_le:
  "count_list xs p * g p \<le> sum_list (map g xs)" for g :: "'a \<Rightarrow> nat"
  by (induction xs) auto

text \<open>
  C3. \<^verbatim>\<open>_calculate_total_gb\<close> divides each file's \<^verbatim>\<open>st_size\<close> by \<open>1024 ^ 3\<close> and
  sums: for files of \<open>B\<close> bytes in all, \<^verbatim>\<open>total_gb\<close> is \<open>B / 2 ^ 30\<close>. With neither a
  folder nor a file list, \<^verbatim>\<open>calculate\<close> of both estimators returns, with a capacity of 0
  and a cost of 0.
\<close>

theorem capacity_is_bytes_over_2_30:
  "total_gb (fst (calculate_total_gb fs e)) =
     Fin (real (sum_list (map (fs_st_size fs) (all_files e))) / 2 ^ 30) \<and>
   (\<exists>r e' evs.
      s3_calculate fs env
        (e1\<lparr>region := ''eu-west-1'', folder := None, files := None, storage_type := ''STANDARD''\<rparr>)
        = (Inr r, e', evs) \<and>
      report_total_gb r = Fin 0 \<and> report_total_cost r = Fin 0 \<and>
      total_gb e' = Fin 0 \<and> total_cost e' = Fin 0 \<and> all_files e' = []) \<and>
   (\<exists>r e' evs.
      ca_calculate fs env (e2\<lparr>region := ''eu-west-1'', folder := None, files := None\<rparr>)
        = (Inr r, e', evs) \<and>
      report_total_gb r = Fin 0 \<and> report_total_cost r = Fin 0 \<and>
      total_gb e' = Fin 0 \<and> total_cost e' = Fin 0 \<and> all_files e' = [])"
proof (intro conjI)
  show "total_gb (fst (calculate_total_gb fs e)) =
     Fin (real (sum_list (map (fs_st_size fs) (all_files e))) / 2 ^ 30)"
    by (rule total_gb_bytes)
  show "\<exists>r e' evs.
      s3_calculate fs env
        (e1\<lparr>region := ''eu-west-1'', folder := None, files := None, storage_type := ''STANDARD''\<rparr>)
        = (Inr r, e', evs) \<and>
      report_total_gb r = Fin 0 \<and> report_total_cost r = Fin 0 \<and>
      total_gb e' = Fin 0 \<and> total_cost e' = Fin 0 \<and> all_files e' = []"
    by (simp add: s3_calculate_def validate_region_def validate_storage_type_def pricing_def
        gather_files_def calculate_total_gb_def s3_calculate_cost_def py_min_def py_sub_def
        determine_color_code_def report_of_def Let_def split: option.split)
  show "\<exists>r e' evs.
      ca_calculate fs env (e2\<lparr>region := ''eu-west-1'', folder := None, files := None\<rparr>)
        = (Inr r, e', evs) \<and>
      report_total_gb r = Fin 0 \<and> report_total_cost r = Fin 0 \<and>
      total_gb e' = Fin 0 \<and> total_cost e' = Fin 0 \<and> all_files e' = []"
    by (simp add: ca_calculate_def validate_region_def
        gather_files_def calculate_total_gb_def ca_calculate_cost_def pricing_per_gb_def
        determine_color_code_def report_of_def Let_def split: option.split)
qed

text \<open>
  With a folder that exists and an explicit list of \<^verbatim>\<open>Path\<close> objects, the collector does
  not merge its two sources: the inventory is the regular files of the walk followed by
  those of the list; a regular file \<open>p\<close> found by both is there once for each occurrence,
  at least twice, and the capacity counts its size that many times.
\<close>

lemma no_deduplication_of_paths:
  "folder e = Some f \<and> truthy f \<and> fs_exists fs (to_path f) \<and> files e = Some (map PathObj ps) \<and>
   p \<in> set (fs_rglob fs (to_path f)) \<and> p \<in> set ps \<and> fs_is_file fs p \<longrightarrow>
   (\<exists>e' evs. gather_files fs e = (None, e', evs) \<and>
      all_files e' = filter (fs_is_file fs) (fs_rglob fs (to_path f)) @ filter (fs_is_file fs) ps \<and>
      count_list (all_files e') p = count_list (fs_rglob fs (to_path f)) p + count_list ps p \<and>
      2 \<le> count_list (all_files e') p \<and>
      (\<exists>bytes. total_gb (fst (calculate_total_gb fs e')) = Fin (real bytes / 2 ^ 30) \<and>
         bytes = sum_list (map (fs_st_size fs) (filter (fs_is_file fs) (fs_rglob fs (to_path f))))
                 + sum_list (map (fs_st_size fs) (filter (fs_is_file fs) ps)) \<and>
         2 * fs_st_size fs p \<le> bytes))"
proof (intro impI, elim conjE)
  assume a: "folder e = Some f" "truthy f" "fs_exists fs (to_path f)"
    "files e = Some (map PathObj ps)"
    and p: "p \<in> set (fs_rglob fs (to_path f))" "p \<in> set ps" "fs_is_file fs p"
  let ?walk = "fs_rglob fs (to_path f)"
  let ?e' = "e\<lparr>all_files := filter (fs_is_file fs) (?walk @ ps)\<rparr>"
  have cnt: "count_list (filter (fs_is_file fs) xs) p = count_list xs p" for xs
    using p(3) by (induction xs) auto
  have pos: "0 < count_list xs p" if "p \<in> set xs" for xs
    using that by (induction xs) auto
  have c2: "2 \<le> count_list (all_files ?e') p"
    using pos [OF p(1)] pos [OF p(2)] by (simp add: cnt)
  have "count_list (all_files ?e') p * fs_st_size fs p
          \<le> sum_list (map (fs_st_size fs) (all_files ?e'))"
    by (rule sum_list_count_le)
  moreover have "2 * fs_st_size fs p \<le> count_list (all_files ?e') p * fs_st_size fs p"
    using c2 by (intro mult_right_mono) simp_all
  ultimately have "2 * fs_st_size fs p \<le> sum_list (map (fs_st_size fs) (all_files ?e'))"
    by (rule order_trans [rotated])
  then show "\<exists>e' evs. gather_files fs e = (None, e', evs) \<and>
      all_files e' = filter (fs_is_file fs) ?walk @ filter (fs_is_file fs) ps \<and>
      count_list (all_files e') p = count_list ?walk p + count_list ps p \<and>
      2 \<le> count_list (all_files e') p \<and>
      (\<exists>bytes. total_gb (fst (calculate_total_gb fs e')) = Fin (real bytes / 2 ^ 30) \<and>
         bytes = sum_list (map (fs_st_size fs) (filter (fs_is_file fs) ?walk))
                 + sum_list (map (fs_st_size fs) (filter (fs_is_file fs) ps)) \<and>
         2 * fs_st_size fs p \<le> bytes)"
    using c2 by (simp add: gather_files_walk_and_list [OF a] total_gb_bytes cnt)
qed

lemma no_deduplication_of_paths_example:
  "truthy (PathObj ''data'') \<and>
   ''data/a.bin'' \<in> set [''data/a.bin'', ''data/sub''] \<and>
   (case gather_files
      \<lparr>fs_exists = (\<lambda>p. True), fs_rglob = (\<lambda>p. [''data/a.bin'', ''data/sub'']),
       fs_is_file = (\<lambda>p. p = ''data/a.bin''), fs_st_size = (\<lambda>p. 1024)\<rparr>
      (new_code_artifact ''eu-west-1'' (Some (PathObj ''data''))
         (Some (map PathObj [''data/a.bin''])) None False False)
    of (err, e', evs) \<Rightarrow>
       err = None \<and> all_files e' = [''data/a.bin'', ''data/a.bin''] \<and>
       total_gb (fst (calculate_total_gb
         \<lparr>fs_exists = (\<lambda>p. True), fs_rglob = (\<lambda>p. [''data/a.bin'', ''data/sub'']),
          fs_is_file = (\<lambda>p. p = ''data/a.bin''), fs_st_size = (\<lambda>p. 1024)\<rparr> e'))
         = Fin (2048 / 2 ^ 30))"
  using no_deduplication_of_paths
    [of "new_code_artifact ''eu-west-1'' (Some (PathObj ''data''))
           (Some (map PathObj [''data/a.bin''])) None False False"
        "PathObj ''data''"
        "\<lparr>fs_exists = (\<lambda>p. True), fs_rglob = (\<lambda>p. [''data/a.bin'', ''data/sub'']),
          fs_is_file = (\<lambda>p. p = ''data/a.bin''), fs_st_size = (\<lambda>p. 1024)\<rparr>"
        "[''data/a.bin'']" "''data/a.bin''"]
  by (auto simp: new_code_artifact_def)

text \<open>
  C6. The inventory should hold a regular file that the walk finds and the explicit list
  names once for each occurrence. The fields \<^verbatim>\<open>folder\<close> and \<^verbatim>\<open>files\<close> both take
  \<^verbatim>\<open>str\<close> or \<^verbatim>\<open>Path\<close>, but only \<^verbatim>\<open>folder\<close> is wrapped in \<^verbatim>\<open>Path()\<close>: when the list
  names the file by a string, \<^verbatim>\<open>_gather_files\<close> raises \<^verbatim>\<open>AttributeError\<close> at
  \<^verbatim>\<open>f.is_file()\<close>, after the queries on the files of the walk, and \<^verbatim>\<open>calculate\<close> of both
  estimators ends with that exception: there is no inventory, and nothing is counted.
\<close>

theorem explicit_str_entry_raises:
  "gather_files
     \<lparr>fs_exists = (\<lambda>p. True), fs_rglob = (\<lambda>p. [''data/a.bin'', ''data/sub'']),
      fs_is_file = (\<lambda>p. p = ''data/a.bin''), fs_st_size = (\<lambda>p. 1024)\<rparr>
     (new_code_artifact ''eu-west-1'' (Some (Str ''data'')) (Some [Str ''data/a.bin''])
        None False False)
   = (Some AttributeError,
      new_code_artifact ''eu-west-1'' (Some (Str ''data'')) (Some [Str ''data/a.bin''])
        None False False,
      [Exists ''data'', Rglob ''data'', IsFile ''data/a.bin'', IsFile ''data/sub'']) \<and>
   ca_calculate
     \<lparr>fs_exists = (\<lambda>p. True), fs_rglob = (\<lambda>p. [''data/a.bin'', ''data/sub'']),
      fs_is_file = (\<lambda>p. p = ''data/a.bin''), fs_st_size = (\<lambda>p. 1024)\<rparr>
     (\<lambda>v. None)
     (new_code_artifact ''eu-west-1'' (Some (Str ''data'')) (Some [Str ''data/a.bin''])
        None False False)
   = (Inl AttributeError,
      new_code_artifact ''eu-west-1'' (Some (Str ''data'')) (Some [Str ''data/a.bin''])
        None False False,
      [Exists ''data'', Rglob ''data'', IsFile ''data/a.bin'', IsFile ''data/sub'']) \<and>
   s3_calculate
     \<lparr>fs_exists = (\<lambda>p. True), fs_rglob = (\<lambda>p. [''data/a.bin'', ''data/sub'']),
      fs_is_file = (\<lambda>p. p = ''data/a.bin''), fs_st_size = (\<lambda>p. 1024)\<rparr>
     (\<lambda>v. None)
     (new_s3 ''eu-west-1'' ''STANDARD'' (Some (Str ''data'')) (Some [Str ''data/a.bin''])
        None False False)
   = (Inl AttributeError,
      new_s3 ''eu-west-1'' ''STANDARD'' (Some (Str ''data'')) (Some [Str ''data/a.bin''])
        None False False,
      [Exists ''data'', Rglob ''data'', IsFile ''data/a.bin'', IsFile ''data/sub''])"
  by (simp add: gather_files_def ca_calculate_def s3_calculate_def validate_region_def
      validate_storage_type_def pricing_def new_code_artifact_def new_s3_def)

lemma keep_files_no_exists: "keep_files fs cs = (err, kept, evs) \<Longrightarrow> Exists p \<notin> set evs"
  by (induction fs cs arbitrary: err kept evs rule: keep_files.induct) (auto split: prod.splits)

lemma keep_files_error: "keep_files fs cs = (Some err, kept, evs) \<Longrightarrow> err = AttributeError"
  by (induction fs cs arbitrary: kept evs rule: keep_files.induct) (auto split: prod.splits)

lemma gather_files_exists_event:
  assumes "Exists p \<in> set (snd (snd (gather_files fs e)))"
  shows "\<exists>f. folder e = Some f \<and> truthy f \<and> p = to_path f"
proof (cases "folder e")
  case None
  with assms keep_files_no_exists [of fs _ _ _ _ p] show ?thesis
    by (auto simp: gather_files_def split: option.splits prod.splits if_splits)
next
  case (Some f)
  with assms keep_files_no_exists [of fs _ _ _ _ p] show ?thesis
    by (auto simp: gather_files_def split: option.splits prod.splits if_splits)
qed

text \<open>
  C9. An empty string as \<^verbatim>\<open>folder\<close> is false, so the collector behaves as with no folder:
  same result, same events, the object apart from its \<^verbatim>\<open>folder\<close> field. It does not
  raise \<^verbatim>\<open>FileNotFoundError\<close>, whatever the file system holds, and with an explicit list of
  \<^verbatim>\<open>Path\<close> objects the inventory is the regular files of that list alone. In any call,
  \<^verbatim>\<open>exists\<close> is asked only of a folder value that is true.
\<close>

theorem empty_string_folder_is_no_folder:
  "gather_files fs (e\<lparr>folder := Some (Str '''')\<rparr>) =
     (case gather_files fs (e\<lparr>folder := None\<rparr>) of
        (err, e', evs) \<Rightarrow> (err, e'\<lparr>folder := Some (Str '''')\<rparr>, evs)) \<and>
   (\<forall>msg. fst (gather_files fs (e\<lparr>folder := Some (Str '''')\<rparr>)) \<noteq> Some (FileNotFoundError msg)) \<and>
   gather_files fs (e\<lparr>folder := Some (Str ''''), files := Some (map PathObj ps)\<rparr>) =
     (None,
      e\<lparr>folder := Some (Str ''''), files := Some (map PathObj ps),
        all_files := filter (fs_is_file fs) ps\<rparr>,
      map IsFile ps) \<and>
   (\<forall>p. Exists p \<in> set (snd (snd (gather_files fs e))) \<longrightarrow>
      (\<exists>f. folder e = Some f \<and> truthy f \<and> p = to_path f))"
proof (intro conjI allI impI)
  show "gather_files fs (e\<lparr>folder := Some (Str '''')\<rparr>) =
     (case gather_files fs (e\<lparr>folder := None\<rparr>) of
        (err, e', evs) \<Rightarrow> (err, e'\<lparr>folder := Some (Str '''')\<rparr>, evs))"
    by (simp add: gather_files_def split: option.splits prod.splits)
  show "fst (gather_files fs (e\<lparr>folder := Some (Str '''')\<rparr>)) \<noteq> Some (FileNotFoundError msg)" for msg
    using keep_files_error [of fs]
    by (fastforce simp: gather_files_def split: option.splits prod.splits if_splits)
  show "gather_files fs (e\<lparr>folder := Some (Str ''''), files := Some (map PathObj ps)\<rparr>) =
     (None,
      e\<lparr>folder := Some (Str ''''), files := Some (map PathObj ps),
        all_files := filter (fs_is_file fs) ps\<rparr>,
      map IsFile ps)"
    using keep_files_paths [of fs ps] by (cases "ps = []") (simp_all add: gather_files_def)
  show "\<exists>f. folder e = Some f \<and> truthy f \<and> p = to_path f"
    if "Exists p \<in> set (snd (snd (gather_files fs e)))" for p
    using that by (rule gather_files_exists_event)
qed

theorem empty_string_folder_is_no_folder_witness:
  "Exists ''data'' \<in> set (snd (snd (gather_files
      \<lparr>fs_exists = (\<lambda>p. False), fs_rglob = (\<lambda>p. []), fs_is_file = (\<lambda>p. p = ''a.bin''),
       fs_st_size = (\<lambda>p. 1024)\<rparr>
      (new_code_artifact ''eu-west-1'' (Some (Str ''data'')) None None False False)))) \<and>
   truthy (Str ''data'') \<and>
   gather_files
      \<lparr>fs_exists = (\<lambda>p. False), fs_rglob = (\<lambda>p. []), fs_is_file = (\<lambda>p. p = ''a.bin''),
       fs_st_size = (\<lambda>p. 1024)\<rparr>
      ((new_code_artifact ''eu-west-1'' (Some (Str ''data'')) None None False False)
         \<lparr>folder := Some (Str ''''), files := Some (map PathObj [''a.bin'', ''b.bin''])\<rparr>)
     = (None,
        (new_code_artifact ''eu-west-1'' (Some (Str ''data'')) None None False False)
          \<lparr>folder := Some (Str ''''), files := Some (map PathObj [''a.bin'', ''b.bin'']),
            all_files := [''a.bin'']\<rparr>,
        [IsFile ''a.bin'', IsFile ''b.bin''])"
  using empty_string_folder_is_no_folder
    [of "\<lparr>fs_exists = (\<lambda>p. False), fs_rglob = (\<lambda>p. []), fs_is_file = (\<lambda>p. p = ''a.bin''),
          fs_st_size = (\<lambda>p. 1024)\<rparr>"
        "new_code_artifact ''eu-west-1'' (Some (Str ''data'')) None None False False"
        "[''a.bin'', ''b.bin'']"]
  by (simp add: gather_files_def new_code_artifact_def)

section \<open>The orchestrators\<close>

text \<open>
  C5. When the region is not \<^verbatim>\<open>eu-west-1\<close>, or the storage type of the tiered estimator
  is not a key of the pricing table, \<^verbatim>\<open>calculate\<close> raises \<^verbatim>\<open>ValueError\<close> with no
  event at all: no query of the file system and no write to a sink. The object is
  as it was, so a new object still has \<^verbatim>\<open>total_gb\<close> 0.0, \<^verbatim>\<open>total_cost\<close> 0.0 and
  \<^verbatim>\<open>color_code\<close> \<^verbatim>\<open>None\<close>.
\<close>

theorem invalid_configuration_raises_first:
  "(region e \<noteq> ''eu-west-1'' \<or> storage_type e \<notin> set (map fst pricing) \<longrightarrow>
      (\<exists>msg. s3_calculate fs env e = (Inl (ValueError msg), e, []))) \<and>
   (region e2 \<noteq> ''eu-west-1'' \<longrightarrow>
      (\<exists>msg. ca_calculate fs env e2 = (Inl (ValueError msg), e2, []))) \<and>
   (r \<noteq> ''eu-west-1'' \<or> st \<notin> set (map fst pricing) \<longrightarrow>
      (\<exists>msg e'. s3_calculate fs env (new_s3 r st fo fl th gs go) = (Inl (ValueError msg), e', []) \<and>
         total_gb e' = Fin 0 \<and> total_cost e' = Fin 0 \<and> color_code e' = None)) \<and>
   (r \<noteq> ''eu-west-1'' \<longrightarrow>
      (\<exists>msg e'. ca_calculate fs env (new_code_artifact r fo fl th gs go)
                   = (Inl (ValueError msg), e', []) \<and>
         total_gb e' = Fin 0 \<and> total_cost e' = Fin 0 \<and> color_code e' = None))"
  by (auto simp: s3_calculate_def ca_calculate_def validate_region_def validate_storage_type_def
      new_s3_def new_code_artifact_def)

theorem invalid_configuration_raises_first_witness:
  "''us-east-1'' \<noteq> ''eu-west-1'' \<and>
   s3_calculate
     \<lparr>fs_exists = (\<lambda>p. True), fs_rglob = (\<lambda>p. [''data/a.bin'']), fs_is_file = (\<lambda>p. True),
      fs_st_size = (\<lambda>p. 1024)\<rparr>
     (\<lambda>v. Some ''sink.txt'')
     (new_s3 ''us-east-1'' ''STANDARD'' (Some (PathObj ''data'')) None (Some (Fin 1)) True True)
   = (Inl (ValueError ''Currently only Ireland (eu-west-1) region is supported''),
      new_s3 ''us-east-1'' ''STANDARD'' (Some (PathObj ''data'')) None (Some (Fin 1)) True True,
      [])"
  using invalid_configuration_raises_first
    [of "new_s3 ''us-east-1'' ''STANDARD'' (Some (PathObj ''data'')) None (Some (Fin 1)) True True"
        "\<lparr>fs_exists = (\<lambda>p. True), fs_rglob = (\<lambda>p. [''data/a.bin'']), fs_is_file = (\<lambda>p. True),
          fs_st_size = (\<lambda>p. 1024)\<rparr>"
        "\<lambda>v. Some ''sink.txt''"]
  by (simp add: s3_calculate_def validate_region_def new_s3_def)

text \<open>\<^verbatim>\<open>calculate\<close> step by step, once the configuration is valid and the files are
  collected: the capacity \<open>g\<close> is a sum of sizes, so it is not negative.\<close>

lemma gather_files_kept:
  "gather_files fs e = (None, e', evs) \<Longrightarrow> \<exists>kept. e' = e\<lparr>all_files := kept\<rparr>"
  by (auto simp: gather_files_def Let_def split: option.splits prod.splits if_splits)

lemma calculate_total_gb_nonneg:
  "\<exists>g. 0 \<le> g \<and> calculate_total_gb fs e = (e\<lparr>total_gb := Fin g\<rparr>, map Stat (all_files e))"
proof (intro exI conjI)
  show "calculate_total_gb fs e =
     (e\<lparr>total_gb := Fin (real (sum_list (map (fs_st_size fs) (all_files e))) / 2 ^ 30)\<rparr>,
      map Stat (all_files e))"
    using total_gb_bytes [of fs e] by (simp add: calculate_total_gb_def)
qed simp

lemma s3_cost_standard_of:
  "storage_type e = ''STANDARD'' \<Longrightarrow> total_gb e = Fin c \<Longrightarrow>
     s3_calculate_cost e = (None, e\<lparr>total_cost := Fin (standard_formula c)\<rparr>)"
  by (simp add: s3_calculate_cost_def pricing_def py_min_def py_sub_def Let_def
      standard_formula_def)

lemma standard_formula_nonneg: "0 \<le> c \<Longrightarrow> 0 \<le> standard_formula c"
  using standard_formula_mono [of 0 c] by (simp add: standard_formula_def)

lemma red_of_nonpositive:
  "py_le t (Fin 0) \<Longrightarrow> py_le (Fin 0) c \<Longrightarrow> threshold e = Some t \<Longrightarrow> total_cost e = c \<Longrightarrow>
     color_code (determine_color_code e) = Some ''red''"
  by (cases c; cases t) (auto simp: determine_color_code_def)

lemma s3_calculate_steps:
  assumes "region e = ''eu-west-1''" "storage_type e = ''STANDARD''"
    and "gather_files fs e = (None, e1, evs)"
  shows "\<exists>g e4. 0 \<le> g \<and>
     e4 = determine_color_code (e1\<lparr>total_gb := Fin g, total_cost := Fin (standard_formula g)\<rparr>) \<and>
     s3_calculate fs env e =
       (Inr (report_of e4), e4,
        evs @ map Stat (all_files e1) @ write_github_output env e4
          @ write_github_summary ''S3'' env e4)"
proof -
  obtain g where g0: "0 \<le> g"
    and ct: "calculate_total_gb fs e1 = (e1\<lparr>total_gb := Fin g\<rparr>, map Stat (all_files e1))"
    using calculate_total_gb_nonneg [of fs e1] by blast
  from assms(3) obtain kept where e1: "e1 = e\<lparr>all_files := kept\<rparr>"
    by (auto dest: gather_files_kept)
  have st: "storage_type (e1\<lparr>total_gb := Fin g\<rparr>) = ''STANDARD''"
    using assms(2) by (simp add: e1)
  have cost: "s3_calculate_cost (e1\<lparr>total_gb := Fin g\<rparr>) =
      (None, e1\<lparr>total_gb := Fin g, total_cost := Fin (standard_formula g)\<rparr>)"
    using s3_cost_standard_of [OF st, of g] by simp
  note g0
  moreover have "s3_calculate fs env e =
       (Inr (report_of (determine_color_code (e1\<lparr>total_gb := Fin g, total_cost := Fin (standard_formula g)\<rparr>))),
        determine_color_code (e1\<lparr>total_gb := Fin g, total_cost := Fin (standard_formula g)\<rparr>),
        evs @ map Stat (all_files e1)
          @ write_github_output env (determine_color_code (e1\<lparr>total_gb := Fin g, total_cost := Fin (standard_formula g)\<rparr>))
          @ write_github_summary ''S3'' env (determine_color_code (e1\<lparr>total_gb := Fin g, total_cost := Fin (standard_formula g)\<rparr>)))"
    using assms
    by (simp add: s3_calculate_def validate_region_def validate_storage_type_def pricing_def
        ct cost Let_def)
  ultimately show ?thesis by blast
qed

lemma ca_calculate_steps:
  assumes "region e = ''eu-west-1''"
    and "gather_files fs e = (None, e1, evs)"
  shows "\<exists>g e4. 0 \<le> g \<and>
     e4 = determine_color_code (e1\<lparr>total_gb := Fin g, total_cost := Fin (g * 0.05)\<rparr>) \<and>
     ca_calculate fs env e =
       (Inr (report_of e4), e4,
        evs @ map Stat (all_files e1) @ write_github_output env e4
          @ write_github_summary ''CodeArtifact'' env e4)"
proof -
  obtain g where g0: "0 \<le> g"
    and ct: "calculate_total_gb fs e1 = (e1\<lparr>total_gb := Fin g\<rparr>, map Stat (all_files e1))"
    using calculate_total_gb_nonneg [of fs e1] by blast
  note g0
  moreover have "ca_calculate fs env e =
       (Inr (report_of (determine_color_code (e1\<lparr>total_gb := Fin g, total_cost := Fin (g * 0.05)\<rparr>))),
        determine_color_code (e1\<lparr>total_gb := Fin g, total_cost := Fin (g * 0.05)\<rparr>),
        evs @ map Stat (all_files e1)
          @ write_github_output env (determine_color_code (e1\<lparr>total_gb := Fin g, total_cost := Fin (g * 0.05)\<rparr>))
          @ write_github_summary ''CodeArtifact'' env (determine_color_code (e1\<lparr>total_gb := Fin g, total_cost := Fin (g * 0.05)\<rparr>)))"
    using assms
    by (simp add: ca_calculate_def validate_region_def ca_calculate_cost_def pricing_per_gb_def
        ct Let_def)
  ultimately show ?thesis by blast
qed

text \<open>
  C10. No step checks that the threshold is positive. With a threshold \<open>t \<le> 0\<close> (also 0
  itself, also \<open>-inf\<close>) every cost \<open>c \<ge> 0\<close> is red, and cost 0 with threshold 0 is red.
  So \<^verbatim>\<open>calculate\<close> of either estimator, once the configuration is valid and the files are
  collected, returns with the color red for such a threshold.
\<close>

theorem nonpositive_threshold_is_red:
  "(py_le t (Fin 0) \<and> py_le (Fin 0) c \<longrightarrow>
      color_code (determine_color_code (e\<lparr>total_cost := c, threshold := Some t\<rparr>)) = Some ''red'') \<and>
   color_code (determine_color_code (e\<lparr>total_cost := Fin 0, threshold := Some (Fin 0)\<rparr>)) = Some ''red'' \<and>
   (py_le t (Fin 0) \<and> region e1 = ''eu-west-1'' \<and> storage_type e1 = ''STANDARD'' \<and>
    threshold e1 = Some t \<and> fst (gather_files fs e1) = None \<longrightarrow>
      (\<exists>r e' evs. s3_calculate fs env e1 = (Inr r, e', evs) \<and>
         report_color_code r = Some ''red'' \<and> color_code e' = Some ''red'')) \<and>
   (py_le t (Fin 0) \<and> region e2 = ''eu-west-1'' \<and> threshold e2 = Some t \<and>
    fst (gather_files fs e2) = None \<longrightarrow>
      (\<exists>r e' evs. ca_calculate fs env e2 = (Inr r, e', evs) \<and>
         report_color_code r = Some ''red'' \<and> color_code e' = Some ''red''))"
proof (intro conjI impI; (elim conjE)?)
  show "color_code (determine_color_code (e\<lparr>total_cost := c, threshold := Some t\<rparr>)) = Some ''red''"
    if "py_le t (Fin 0)" "py_le (Fin 0) c"
    using that by (intro red_of_nonpositive [of t c]) simp_all
  show "color_code (determine_color_code (e\<lparr>total_cost := Fin 0, threshold := Some (Fin 0)\<rparr>)) = Some ''red''"
    by (simp add: determine_color_code_def)
  show "\<exists>r e' evs. s3_calculate fs env e1 = (Inr r, e', evs) \<and>
         report_color_code r = Some ''red'' \<and> color_code e' = Some ''red''"
    if t: "py_le t (Fin 0)" and cfg: "region e1 = ''eu-west-1''" "storage_type e1 = ''STANDARD''"
      and th: "threshold e1 = Some t" and g: "fst (gather_files fs e1) = None"
  proof -
    from g obtain e' evs where ga: "gather_files fs e1 = (None, e', evs)"
      by (cases "gather_files fs e1") auto
    then obtain kept where e': "e' = e1\<lparr>all_files := kept\<rparr>"
      by (auto dest: gather_files_kept)
    from s3_calculate_steps [OF cfg ga, of env] obtain g e4 where
      g0: "0 \<le> g"
      and e4: "e4 = determine_color_code (e'\<lparr>total_gb := Fin g, total_cost := Fin (standard_formula g)\<rparr>)"
      and run: "s3_calculate fs env e1 =
         (Inr (report_of e4), e4,
          evs @ map Stat (all_files e') @ write_github_output env e4
            @ write_github_summary ''S3'' env e4)"
      by blast
    have "color_code e4 = Some ''red''"
      unfolding e4
      by (rule red_of_nonpositive [OF t, of "Fin (standard_formula g)"])
        (simp_all add: e' th standard_formula_nonneg g0)
    then show ?thesis
      using run by (simp add: report_of_def)
  qed
  show "\<exists>r e' evs. ca_calculate fs env e2 = (Inr r, e', evs) \<and>
         report_color_code r = Some ''red'' \<and> color_code e' = Some ''red''"
    if t: "py_le t (Fin 0)" and cfg: "region e2 = ''eu-west-1''"
      and th: "threshold e2 = Some t" and g: "fst (gather_files fs e2) = None"
  proof -
    from g obtain e' evs where ga: "gather_files fs e2 = (None, e', evs)"
      by (cases "gather_files fs e2") auto
    then obtain kept where e': "e' = e2\<lparr>all_files := kept\<rparr>"
      by (auto dest: gather_files_kept)
    from ca_calculate_steps [OF cfg ga, of env] obtain g e4 where
      g0: "0 \<le> g"
      and e4: "e4 = determine_color_code (e'\<lparr>total_gb := Fin g, total_cost := Fin (g * 0.05)\<rparr>)"
      and run: "ca_calculate fs env e2 =
         (Inr (report_of e4), e4,
          evs @ map Stat (all_files e') @ write_github_output env e4
            @ write_github_summary ''CodeArtifact'' env e4)"
      by blast
    have "color_code e4 = Some ''red''"
      unfolding e4
      by (rule red_of_nonpositive [OF t, of "Fin (g * 0.05)"])
        (simp_all add: e' th g0)
    then show ?thesis
      using run by (simp add: report_of_def)
  qed
qed

theorem nonpositive_threshold_is_red_witness:
  "py_le (Fin 0) (Fin 0) \<and>
   fst (gather_files
      \<lparr>fs_exists = (\<lambda>p. True), fs_rglob = (\<lambda>p. [''data/a.bin'', ''data/sub'']),
       fs_is_file = (\<lambda>p. p = ''data/a.bin''), fs_st_size = (\<lambda>p. 1024)\<rparr>
      (new_s3 ''eu-west-1'' ''STANDARD'' None None (Some (Fin 0)) False False)) = None \<and>
   fst (s3_calculate
      \<lparr>fs_exists = (\<lambda>p. True), fs_rglob = (\<lambda>p. [''data/a.bin'', ''data/sub'']),
       fs_is_file = (\<lambda>p. p = ''data/a.bin''), fs_st_size = (\<lambda>p. 1024)\<rparr>
      (\<lambda>v. None)
      (new_s3 ''eu-west-1'' ''STANDARD'' None None (Some (Fin 0)) False False))
     = Inr \<lparr>report_total_gb = Fin 0, report_total_cost = Fin 0, report_color_code = Some ''red''\<rparr>"
  using nonpositive_threshold_is_red
    [of "Fin 0" "Fin 0" _
        "new_s3 ''eu-west-1'' ''STANDARD'' None None (Some (Fin 0)) False False"
        "\<lparr>fs_exists = (\<lambda>p. True), fs_rglob = (\<lambda>p. [''data/a.bin'', ''data/sub'']),
          fs_is_file = (\<lambda>p. p = ''data/a.bin''), fs_st_size = (\<lambda>p. 1024)\<rparr>"
        "\<lambda>v. None"]
  by (simp add: s3_calculate_def validate_region_def validate_storage_type_def pricing_def
        gather_files_def calculate_total_gb_def s3_calculate_cost_def py_min_def py_sub_def
        determine_color_code_def report_of_def new_s3_def Let_def)

section \<open>Downloads\<close>





end
